theory Spec2Isabelle
  imports Main "HOL-Library.Word"
begin

section \<open>JavaScript strings\<close>

text \<open>
  A JavaScript string is a sequence of UTF-16 code units. Literals of the source are
  ASCII, so they are written as HOL strings and mapped to code units by \<open>js\<close>.
\<close>

type_synonym jsstring = "16 word list"

definition js :: "string \<Rightarrow> jsstring" where
  "js s = map of_char s"

text \<open>
  The characters removed by \<^verbatim>\<open>String.prototype.trim\<close> and matched by \<^verbatim>\<open>\s\<close> in a
  regular expression without the \<^verbatim>\<open>u\<close> flag: ECMAScript's WhiteSpace and LineTerminator.
\<close>

definition isWhiteSpace :: "16 word \<Rightarrow> bool" where
  "isWhiteSpace c \<longleftrightarrow>
     c = 0x0009 \<or> c = 0x000A \<or> c = 0x000B \<or> c = 0x000C \<or> c = 0x000D \<or> c = 0x0020 \<or>
     c = 0x00A0 \<or> c = 0x1680 \<or> (0x2000 \<le> c \<and> c \<le> 0x200A) \<or> c = 0x2028 \<or> c = 0x2029 \<or>
     c = 0x202F \<or> c = 0x205F \<or> c = 0x3000 \<or> c = 0xFEFF"

definition trimStart :: "jsstring \<Rightarrow> jsstring" where
  "trimStart s = dropWhile isWhiteSpace s"

definition trimEnd :: "jsstring \<Rightarrow> jsstring" where
  "trimEnd s = rev (dropWhile isWhiteSpace (rev s))"

definition trim :: "jsstring \<Rightarrow> jsstring" where
  "trim s = trimStart (trimEnd s)"

text \<open>
  \<^verbatim>\<open>s.replace(/\s+$/, r)\<close>: the leftmost match starts at the first position from which
  the rest of the string is a non-empty run of white space (\<^verbatim>\<open>$\<close> matches at the end of
  the input only); without a match the string is returned as it is.
\<close>

fun replaceTrailingSpaces1 :: "jsstring \<Rightarrow> jsstring \<Rightarrow> jsstring" where
  "replaceTrailingSpaces1 [] r = []"
| "replaceTrailingSpaces1 (c # cs) r =
     (if list_all isWhiteSpace (c # cs) then r else c # replaceTrailingSpaces1 cs r)"

text \<open>
  \<^verbatim>\<open>s.replace(/\s*$/, r)\<close>: as above, but the empty run at the end of the string matches
  too, so there is always a match.
\<close>

fun replaceTrailingSpaces0 :: "jsstring \<Rightarrow> jsstring \<Rightarrow> jsstring" where
  "replaceTrailingSpaces0 [] r = r"
| "replaceTrailingSpaces0 (c # cs) r =
     (if list_all isWhiteSpace (c # cs) then r else c # replaceTrailingSpaces0 cs r)"

text \<open>
  \<^verbatim>\<open>String.prototype.toLowerCase\<close>. On a string of ASCII code units it maps \<open>A\<close>..\<open>Z\<close> to
  \<open>a\<close>..\<open>z\<close> and nothing else. The Unicode case tables for the other strings are not part
  of the repository; they are the parameter \<open>unicodeLower\<close>.
\<close>

definition asciiLower :: "16 word \<Rightarrow> 16 word" where
  "asciiLower c = (if 0x41 \<le> c \<and> c \<le> 0x5A then c + 0x20 else c)"

definition toLowerCase :: "(jsstring \<Rightarrow> jsstring) \<Rightarrow> jsstring \<Rightarrow> jsstring" where
  "toLowerCase unicodeLower s =
     (if list_all (\<lambda>c. c < 0x80) s then map asciiLower s else unicodeLower s)"

section \<open>Data model\<close>

text \<open>
  \<^verbatim>\<open>InputLogger\<close>: each channel is optional. The calls made on a channel that is present
  are recorded with their first argument (the message); a channel is taken to return
  normally.
\<close>

datatype level = Info | Warn | Err

record inputLogger =
  hasInfo :: bool
  hasWarn :: bool
  hasError :: bool
  calls :: "(level \<times> jsstring) list"

text \<open>
  A listener registered on the \<^verbatim>\<open>'data'\<close> event. JavaScript compares listeners by
  reference, so every closure carries the identity it got when it was created.
  A chunk has the abstract type \<open>'b\<close> (a \<^verbatim>\<open>Buffer\<close>); callbacks act on a caller state \<open>'u\<close>.
\<close>

datatype ('b, 'u) listener = Listener (lid: nat) (run: "'b \<Rightarrow> 'u \<Rightarrow> 'u")

text \<open>
  \<^verbatim>\<open>NodeJS.ReadStream\<close>, as far as the manager uses it: the terminal flag, the optional
  \<^verbatim>\<open>setRawMode\<close>, whether \<^verbatim>\<open>setRawMode\<close>, \<^verbatim>\<open>resume\<close> and \<^verbatim>\<open>pause\<close> throw, the raw and paused
  flags, the \<^verbatim>\<open>'data'\<close> listeners in registration order, and the input to come.

  The input to come is the list of the data events that complete a line while a question
  of a readline interface is pending. Each event is a pair: the first line it completes,
  which readline hands to the pending question, and the lines it completes after that one.
  These arrive before the caller can ask the next question, so readline emits them with no
  question pending and they are lost. A line typed after the prompt that asks for it is an
  event with no such further line.
\<close>

record ('b, 'u) readStream =
  isTTY :: bool
  hasSetRawMode :: bool
  setRawModeThrows :: bool
  resumeThrows :: bool
  pauseThrows :: bool
  isRaw :: bool
  isPaused :: bool
  dataListeners :: "('b, 'u) listener list"
  pendingInput :: "(jsstring \<times> jsstring list) list"

record writeStream =
  written :: "jsstring list"

record ('b, 'u) inputManagerOptions =
  optStdin :: "('b, 'u) readStream option"
  optStdout :: "writeStream option"
  optLogger :: "inputLogger option"

record yesNoPromptOptions =
  defaultValue :: "bool option"

record textPromptOptions =
  textDefaultValue :: "jsstring option"
  allowEmpty :: bool

text \<open>
  The class \<^verbatim>\<open>InputManager\<close> with the objects it refers to. \<open>openInterfaces\<close> counts the
  readline interfaces created and not closed; \<open>nextId\<close> is the identity of the next closure.
\<close>

record ('b, 'u) inputManager =
  stdin :: "('b, 'u) readStream option"
  stdout :: "writeStream option"
  logger :: "inputLogger option"
  rawInputHandler :: "('b, 'u) listener option"
  rawModeEnabled :: bool
  openInterfaces :: nat
  nextId :: nat

datatype error = Error jsstring

text \<open>The state of the promise a prompt returns; \<open>Pending\<close> is a promise that never settles.\<close>

datatype 'a outcome = Resolved 'a | Rejected error | Pending

definition freshId :: "('b, 'u) listener list \<Rightarrow> nat" where
  "freshId ls = fold (\<lambda>l n. max n (Suc (lid l))) ls 0"

definition newInputManager ::
  "('b, 'u) readStream option \<Rightarrow> writeStream option \<Rightarrow> ('b, 'u) inputManagerOptions
     \<Rightarrow> ('b, 'u) inputManager" where
  "newInputManager defaultStdin defaultStdout options =
     (let sin = (case optStdin options of Some s \<Rightarrow> Some s | None \<Rightarrow> defaultStdin);
          sout = (case optStdout options of Some s \<Rightarrow> Some s | None \<Rightarrow> defaultStdout)
      in \<lparr> stdin = sin, stdout = sout, logger = optLogger options,
           rawInputHandler = None, rawModeEnabled = False, openInterfaces = 0,
           nextId = (case sin of None \<Rightarrow> 0 | Some s \<Rightarrow> freshId (dataListeners s)) \<rparr>)"

definition isInteractive :: "('b, 'u) inputManager \<Rightarrow> bool" where
  "isInteractive m =
     (case stdin m of None \<Rightarrow> False | Some s \<Rightarrow> isTTY s \<and> stdout m \<noteq> None)"

section \<open>Logger calls and the readline interface\<close>

definition loggerCall :: "level \<Rightarrow> jsstring \<Rightarrow> ('b, 'u) inputManager \<Rightarrow> ('b, 'u) inputManager" where
  "loggerCall lv msg m =
     (case logger m of
        None \<Rightarrow> m
      | Some lg \<Rightarrow>
          if (case lv of Info \<Rightarrow> hasInfo lg | Warn \<Rightarrow> hasWarn lg | Err \<Rightarrow> hasError lg)
          then m\<lparr>logger := Some (lg\<lparr>calls := calls lg @ [(lv, msg)]\<rparr>)\<rparr>
          else m)"

definition createInterface :: "('b, 'u) inputManager \<Rightarrow> ('b, 'u) inputManager" where
  "createInterface m = m\<lparr>openInterfaces := Suc (openInterfaces m)\<rparr>"

definition closeInterface :: "('b, 'u) inputManager \<Rightarrow> ('b, 'u) inputManager" where
  "closeInterface m = m\<lparr>openInterfaces := openInterfaces m - 1\<rparr>"

text \<open>\<^verbatim>\<open>rl.question(prompt, resolve)\<close> writes the prompt to the output handle.\<close>

definition writePrompt :: "jsstring \<Rightarrow> ('b, 'u) inputManager \<Rightarrow> ('b, 'u) inputManager" where
  "writePrompt p m =
     m\<lparr>stdout := map_option (\<lambda>out. out\<lparr>written := written out @ [p]\<rparr>) (stdout m)\<rparr>"

text \<open>
  The event that resolves the question is taken from the input; \<open>rest\<close> is what is left.
\<close>

definition consumeLine ::
  "(jsstring \<times> jsstring list) list \<Rightarrow> ('b, 'u) inputManager \<Rightarrow> ('b, 'u) inputManager" where
  "consumeLine rest m = m\<lparr>stdin := map_option (\<lambda>s. s\<lparr>pendingInput := rest\<rparr>) (stdin m)\<rparr>"

section \<open>promptYesNo\<close>

text \<open>
  The loop \<^verbatim>\<open>while (true)\<close> of \<^verbatim>\<open>promptYesNo\<close>, by recursion on the input to come.
  When no input is left the prompt has been displayed and the promise stays pending.
\<close>

fun yesNoLoop ::
  "(jsstring \<Rightarrow> jsstring) \<Rightarrow> jsstring \<Rightarrow> yesNoPromptOptions
     \<Rightarrow> (jsstring \<times> jsstring list) list
     \<Rightarrow> ('b, 'u) inputManager \<Rightarrow> bool outcome \<times> ('b, 'u) inputManager" where
  "yesNoLoop unicodeLower promptText options [] m = (Pending, writePrompt promptText m)"
| "yesNoLoop unicodeLower promptText options ((answer, lost) # rest) m =
     (let m1 = consumeLine rest (writePrompt promptText m);
          normalized = toLowerCase unicodeLower (trim answer)
      in case (if normalized = [] then defaultValue options else None) of
           Some d \<Rightarrow> (Resolved d, m1)
         | None \<Rightarrow>
             if normalized = js ''y'' \<or> normalized = js ''yes'' then (Resolved True, m1)
             else if normalized = js ''n'' \<or> normalized = js ''no'' then (Resolved False, m1)
             else yesNoLoop unicodeLower promptText options rest
                    (loggerCall Warn (js ''Please answer with y or n.'') m1))"

definition yesNoPromptText :: "jsstring \<Rightarrow> jsstring" where
  "yesNoPromptText question =
     (let trimmedQuestion = replaceTrailingSpaces1 (trim question) []
      in trimmedQuestion @ js '' (y/n): '')"

definition promptYesNo ::
  "(jsstring \<Rightarrow> jsstring) \<Rightarrow> jsstring \<Rightarrow> yesNoPromptOptions \<Rightarrow> ('b, 'u) inputManager
     \<Rightarrow> bool outcome \<times> ('b, 'u) inputManager" where
  "promptYesNo unicodeLower question options m =
     (if \<not> isInteractive m then
        (case defaultValue options of
           Some d \<Rightarrow> (Resolved d, m)
         | None \<Rightarrow> (Rejected (Error (js ''TTY input is not available for yes/no prompt.'')), m))
      else
        (case (stdin m, stdout m) of
           (Some sin, Some sout) \<Rightarrow>
             (case yesNoLoop unicodeLower (yesNoPromptText question) options (pendingInput sin)
                     (createInterface m) of
                (Pending, m') \<Rightarrow> (Pending, m')
              | (r, m') \<Rightarrow> (r, closeInterface m'))
         | _ \<Rightarrow> (Rejected (Error (js ''TTY input is not available for yes/no prompt.'')), m)))"

section \<open>promptText\<close>

fun textLoop ::
  "jsstring \<Rightarrow> textPromptOptions \<Rightarrow> (jsstring \<times> jsstring list) list
     \<Rightarrow> ('b, 'u) inputManager \<Rightarrow> jsstring outcome \<times> ('b, 'u) inputManager" where
  "textLoop promptText options [] m = (Pending, writePrompt promptText m)"
| "textLoop promptText options ((answer, lost) # rest) m =
     (let m1 = consumeLine rest (writePrompt promptText m);
          trimmed = trim answer
      in if length trimmed = 0 then
           (case textDefaultValue options of
              Some d \<Rightarrow> (Resolved d, m1)
            | None \<Rightarrow>
                if allowEmpty options then (Resolved [], m1)
                else textLoop promptText options rest
                       (loggerCall Warn (js ''Input cannot be empty.'') m1))
         else (Resolved trimmed, m1))"

definition textPromptText :: "jsstring \<Rightarrow> jsstring" where
  "textPromptText question = replaceTrailingSpaces0 (trim question) (js '': '')"

definition promptText ::
  "jsstring \<Rightarrow> textPromptOptions \<Rightarrow> ('b, 'u) inputManager
     \<Rightarrow> jsstring outcome \<times> ('b, 'u) inputManager" where
  "promptText question options m =
     (if \<not> isInteractive m then
        (case textDefaultValue options of
           Some d \<Rightarrow> (Resolved d, m)
         | None \<Rightarrow> (Rejected (Error (js ''TTY input is not available for text prompt.'')), m))
      else
        (case (stdin m, stdout m) of
           (Some sin, Some sout) \<Rightarrow>
             (case textLoop (textPromptText question) options (pendingInput sin)
                     (createInterface m) of
                (Pending, m') \<Rightarrow> (Pending, m')
              | (r, m') \<Rightarrow> (r, closeInterface m'))
         | _ \<Rightarrow> (Rejected (Error (js ''TTY input is not available for text prompt.'')), m)))"

section \<open>Raw mode\<close>

text \<open>
  The \<^verbatim>\<open>try\<close> block of \<^verbatim>\<open>enableRawMode\<close>: \<^verbatim>\<open>setRawMode?.(true)\<close>, then \<^verbatim>\<open>resume()\<close>.
  \<open>Inl\<close> is the stream as the exception left it, \<open>Inr\<close> the stream after both calls.
\<close>

definition switchRawOn :: "('b, 'u) readStream \<Rightarrow> ('b, 'u) readStream + ('b, 'u) readStream" where
  "switchRawOn s =
     (if hasSetRawMode s \<and> setRawModeThrows s then Inl s
      else let s1 = (if hasSetRawMode s then s\<lparr>isRaw := True\<rparr> else s)
           in if resumeThrows s1 then Inl s1 else Inr (s1\<lparr>isPaused := False\<rparr>))"

text \<open>
  \<open>toString\<close> is \<^verbatim>\<open>Buffer.prototype.toString\<close>, the decoding of a chunk to text.
\<close>

definition enableRawMode ::
  "('b \<Rightarrow> jsstring) \<Rightarrow> (jsstring \<Rightarrow> 'u \<Rightarrow> 'u) \<Rightarrow> ('b, 'u) inputManager
     \<Rightarrow> bool \<times> ('b, 'u) inputManager" where
  "enableRawMode toString handler m =
     (case stdin m of
        None \<Rightarrow> (False, m)
      | Some s \<Rightarrow>
          if \<not> isTTY s then (False, m)
          else
            (case switchRawOn s of
               Inl s' \<Rightarrow>
                 (False, loggerCall Err (js ''Failed to enable raw mode input:'')
                           (m\<lparr>stdin := Some s'\<rparr>))
             | Inr s' \<Rightarrow>
                 (let l = Listener (nextId m) (\<lambda>data. handler (toString data))
                  in (True, m\<lparr>stdin := Some (s'\<lparr>dataListeners := dataListeners s' @ [l]\<rparr>),
                               rawModeEnabled := True,
                               rawInputHandler := Some l,
                               nextId := Suc (nextId m)\<rparr>))))"

text \<open>
  \<^verbatim>\<open>EventEmitter.off\<close> removes at most one registration of the listener, the one added
  last.
\<close>

fun removeFirst :: "nat \<Rightarrow> ('b, 'u) listener list \<Rightarrow> ('b, 'u) listener list" where
  "removeFirst i [] = []"
| "removeFirst i (l # ls) = (if lid l = i then ls else l # removeFirst i ls)"

definition off :: "('b, 'u) listener \<Rightarrow> ('b, 'u) readStream \<Rightarrow> ('b, 'u) readStream" where
  "off l s = s\<lparr>dataListeners := rev (removeFirst (lid l) (rev (dataListeners s)))\<rparr>"

text \<open>
  The \<^verbatim>\<open>try\<close> block of \<^verbatim>\<open>disableRawMode\<close>: \<^verbatim>\<open>setRawMode?.(false)\<close>, then \<^verbatim>\<open>pause()\<close>.
\<close>

definition switchRawOff :: "('b, 'u) readStream \<Rightarrow> ('b, 'u) readStream + ('b, 'u) readStream" where
  "switchRawOff s =
     (if hasSetRawMode s \<and> setRawModeThrows s then Inl s
      else let s1 = (if hasSetRawMode s then s\<lparr>isRaw := False\<rparr> else s)
           in if pauseThrows s1 then Inl s1 else Inr (s1\<lparr>isPaused := True\<rparr>))"

definition disableRawMode :: "('b, 'u) inputManager \<Rightarrow> ('b, 'u) inputManager" where
  "disableRawMode m =
     (case stdin m of
        None \<Rightarrow> m
      | Some s \<Rightarrow>
          (let (s1, m1) =
                 (case rawInputHandler m of
                    Some l \<Rightarrow> (off l s, m\<lparr>stdin := Some (off l s), rawInputHandler := None\<rparr>)
                  | None \<Rightarrow> (s, m))
           in if rawModeEnabled m1 then
                (case switchRawOff s1 of
                   Inl s' \<Rightarrow>
                     (loggerCall Warn (js ''Failed to disable raw mode cleanly:'')
                        (m1\<lparr>stdin := Some s'\<rparr>))\<lparr>rawModeEnabled := False\<rparr>
                 | Inr s' \<Rightarrow> m1\<lparr>stdin := Some s', rawModeEnabled := False\<rparr>)
              else m1))"

text \<open>
  The listeners registered for \<^verbatim>\<open>'data'\<close> on the manager's input handle, and the stream
  emitting \<^verbatim>\<open>'data'\<close>: every registered listener is called with the chunk, in registration
  order. Callbacks are taken to return normally.
\<close>

definition registeredListeners :: "('b, 'u) inputManager \<Rightarrow> ('b, 'u) listener list" where
  "registeredListeners m = (case stdin m of None \<Rightarrow> [] | Some s \<Rightarrow> dataListeners s)"

definition emitData :: "'b \<Rightarrow> ('b, 'u) inputManager \<Rightarrow> 'u \<Rightarrow> 'u" where
  "emitData data m u = fold (\<lambda>l. run l data) (registeredListeners m) u"

section \<open>GameInputController\<close>

text \<open>
  \<^verbatim>\<open>onAdvance\<close> returns \<^verbatim>\<open>void | Promise<void>\<close>; the controller discards what it returns
  (\<^verbatim>\<open>void handlers.onAdvance()\<close>).
\<close>

datatype advanceResult = Void | PromiseVoid

record 'u manualControlHandlers =
  onExit :: "'u \<Rightarrow> 'u"
  onAdvance :: "'u \<Rightarrow> advanceResult \<times> 'u"

definition manualControlKey :: "'u manualControlHandlers \<Rightarrow> jsstring \<Rightarrow> 'u \<Rightarrow> 'u" where
  "manualControlKey handlers key u =
     (if key = [0x1B] then onExit handlers u
      else if key = [0x0D] \<or> key = [0x0A] then snd (onAdvance handlers u)
      else u)"

definition attachManualControls ::
  "('b \<Rightarrow> jsstring) \<Rightarrow> 'u manualControlHandlers \<Rightarrow> ('b, 'u) inputManager
     \<Rightarrow> bool \<times> ('b, 'u) inputManager" where
  "attachManualControls toString handlers m =
     enableRawMode toString (manualControlKey handlers) m"

definition detachManualControls :: "('b, 'u) inputManager \<Rightarrow> ('b, 'u) inputManager" where
  "detachManualControls m = disableRawMode m"

section \<open>The prompts as the specification words them\<close>

text \<open>
  The specification's reading of the two prompts: only the trailing white space of the
  question is rewritten, the start of the question is kept as it is.
\<close>

definition specYesNoPromptText :: "jsstring \<Rightarrow> jsstring" where
  "specYesNoPromptText question = replaceTrailingSpaces1 question [] @ js '' (y/n): ''"

definition specTextPromptText :: "jsstring \<Rightarrow> jsstring" where
  "specTextPromptText question = replaceTrailingSpaces0 question (js '': '')"

section \<open>Example configurations\<close>

text \<open>
  Concrete streams and managers for evaluating the operations. A chunk is given by its
  text (\<open>toString\<close> is the identity) and callbacks append their name to a trace. On
  \<open>terminal ls\<close> the user types the lines \<open>ls\<close>, each one after the prompt that asks for it.
\<close>

definition exampleLogger :: inputLogger where
  "exampleLogger = \<lparr> hasInfo = True, hasWarn = True, hasError = True, calls = [] \<rparr>"

definition terminal :: "jsstring list \<Rightarrow> (jsstring, string list) readStream" where
  "terminal ls =
     \<lparr> isTTY = True, hasSetRawMode = True, setRawModeThrows = False, resumeThrows = False,
       pauseThrows = False, isRaw = False, isPaused = True, dataListeners = [],
       pendingInput = map (\<lambda>l. (l, [])) ls \<rparr>"

text \<open>A terminal on which one data event completes the line \<open>l\<close> and then the lines \<open>ls\<close>.\<close>

definition pastingTerminal :: "jsstring \<Rightarrow> jsstring list \<Rightarrow> (jsstring, string list) readStream" where
  "pastingTerminal l ls = (terminal [])\<lparr> pendingInput := [(l, ls)] \<rparr>"

definition pipe :: "jsstring list \<Rightarrow> (jsstring, string list) readStream" where
  "pipe ls = (terminal ls)\<lparr> isTTY := False, hasSetRawMode := False \<rparr>"

definition failingTerminal :: "(jsstring, string list) readStream" where
  "failingTerminal = (terminal [])\<lparr> setRawModeThrows := True \<rparr>"

definition managerOn :: "(jsstring, string list) readStream \<Rightarrow> (jsstring, string list) inputManager" where
  "managerOn s =
     newInputManager None None
       \<lparr> optStdin = Some s, optStdout = Some \<lparr> written = [] \<rparr>, optLogger = Some exampleLogger \<rparr>"

text \<open>The terminal starts to refuse the switch of its mode.\<close>

definition refuseRawMode ::
  "(jsstring, string list) inputManager \<Rightarrow> (jsstring, string list) inputManager" where
  "refuseRawMode m = m\<lparr>stdin := map_option (\<lambda>s. s\<lparr>setRawModeThrows := True\<rparr>) (stdin m)\<rparr>"

definition named :: "string \<Rightarrow> jsstring \<Rightarrow> string list \<Rightarrow> string list" where
  "named n key trace = trace @ [n]"

definition exampleHandlers :: "string list manualControlHandlers" where
  "exampleHandlers =
     \<lparr> onExit = (\<lambda>trace. trace @ [''onExit'']),
       onAdvance = (\<lambda>trace. (PromiseVoid, trace @ [''onAdvance''])) \<rparr>"

section \<open>Facts about trimming\<close>

lemmas example_defs = managerOn_def newInputManager_def terminal_def pipe_def failingTerminal_def
  pastingTerminal_def
  exampleLogger_def freshId_def isInteractive_def

lemmas eval_defs = promptYesNo_def promptText_def yesNoPromptText_def textPromptText_def
  trim_def trimStart_def trimEnd_def isWhiteSpace_def js_def toLowerCase_def asciiLower_def
  createInterface_def closeInterface_def writePrompt_def consumeLine_def loggerCall_def
  specYesNoPromptText_def specTextPromptText_def

lemma replaceTrailingSpaces1_id:
  "xs = [] \<or> \<not> isWhiteSpace (last xs) \<Longrightarrow> replaceTrailingSpaces1 xs r = xs"
proof (induction xs)
  case Nil
  show ?case by simp
next
  case (Cons c cs)
  have nall: "\<not> list_all isWhiteSpace (c # cs)"
    using Cons.prems by (cases cs rule: rev_cases) (auto simp: list_all_iff)
  from Cons show ?case
    by (cases "cs = []") (use nall in auto)
qed

lemma replaceTrailingSpaces0_append:
  "xs = [] \<or> \<not> isWhiteSpace (last xs) \<Longrightarrow> replaceTrailingSpaces0 xs r = xs @ r"
proof (induction xs)
  case Nil
  show ?case by simp
next
  case (Cons c cs)
  have nall: "\<not> list_all isWhiteSpace (c # cs)"
    using Cons.prems by (cases cs rule: rev_cases) (auto simp: list_all_iff)
  from Cons show ?case
    by (cases "cs = []") (use nall in auto)
qed

lemma trimEnd_last: "trimEnd s = [] \<or> \<not> isWhiteSpace (last (trimEnd s))"
  unfolding trimEnd_def
  by (cases "dropWhile isWhiteSpace (rev s) = []") (simp_all add: last_rev hd_dropWhile)

lemma dropWhile_keeps_last:
  "dropWhile P xs \<noteq> [] \<Longrightarrow> last (dropWhile P xs) = last xs"
  by (induction xs) (auto split: if_splits)

lemma trim_last: "trim s = [] \<or> \<not> isWhiteSpace (last (trim s))"
proof (cases "trim s = []")
  case True
  then show ?thesis by simp
next
  case False
  then have ne: "dropWhile isWhiteSpace (trimEnd s) \<noteq> []"
    by (simp add: trim_def trimStart_def)
  then have "trimEnd s \<noteq> []" by auto
  with trimEnd_last [of s] have "\<not> isWhiteSpace (last (trimEnd s))" by simp
  with dropWhile_keeps_last [OF ne] show ?thesis
    by (simp add: trim_def trimStart_def)
qed

lemma yesNoPromptText_trim: "yesNoPromptText q = trim q @ js '' (y/n): ''"
  by (simp add: yesNoPromptText_def replaceTrailingSpaces1_id [OF trim_last])

lemma textPromptText_trim: "textPromptText q = trim q @ js '': ''"
  by (simp add: textPromptText_def replaceTrailingSpaces0_append [OF trim_last])


section \<open>Prompts without a terminal\<close>

text \<open>
  C1 (as amended). When the manager is not interactive and no default value is given,
  \<open>promptYesNo\<close> and \<open>promptText\<close> are rejected with an \<^verbatim>\<open>Error\<close> whose message is
  \<^verbatim>\<open>TTY input is not available for yes/no prompt.\<close> and
  \<^verbatim>\<open>TTY input is not available for text prompt.\<close> respectively, each ending in a full
  stop; nothing else changes.
\<close>

theorem prompt_without_default_rejects:
  assumes "\<not> isInteractive m"
    and "defaultValue yn = None"
    and "textDefaultValue tx = None"
  shows "promptYesNo unicodeLower question yn m =
           (Rejected (Error (js ''TTY input is not available for yes/no prompt.'')), m)
       \<and> promptText question tx m =
           (Rejected (Error (js ''TTY input is not available for text prompt.'')), m)"
  using assms by (simp add: promptYesNo_def promptText_def)

text \<open>The theorem at a manager whose input is a pipe.\<close>

theorem prompt_without_default_rejects_witness:
  "\<not> isInteractive (managerOn (pipe []))
   \<and> defaultValue \<lparr> defaultValue = None \<rparr> = None
   \<and> textDefaultValue \<lparr> textDefaultValue = None, allowEmpty = False \<rparr> = None
   \<and> promptYesNo (\<lambda>s. s) (js ''Continue?'') \<lparr> defaultValue = None \<rparr> (managerOn (pipe [])) =
           (Rejected (Error (js ''TTY input is not available for yes/no prompt.'')), managerOn (pipe []))
   \<and> promptText (js ''Continue?'') \<lparr> textDefaultValue = None, allowEmpty = False \<rparr> (managerOn (pipe [])) =
           (Rejected (Error (js ''TTY input is not available for text prompt.'')), managerOn (pipe []))"
proof -
  have ni: "\<not> isInteractive (managerOn (pipe []))"
    by (simp add: example_defs)
  show ?thesis
    using ni prompt_without_default_rejects [OF ni, of "\<lparr> defaultValue = None \<rparr>"
        "\<lparr> textDefaultValue = None, allowEmpty = False \<rparr>" "\<lambda>s. s" "js ''Continue?''"]
    by simp
qed

text \<open>
  C1 as stated fails: on a manager whose input is a pipe, with no default value, the
  messages of the two errors are not the strings without the final full stop.
\<close>

theorem prompt_rejection_message_counterexample:
  "\<not> isInteractive (managerOn (pipe []))
   \<and> fst (promptYesNo (\<lambda>s. s) (js ''Continue?'') \<lparr> defaultValue = None \<rparr> (managerOn (pipe [])))
       \<noteq> Rejected (Error (js ''TTY input is not available for yes/no prompt''))
   \<and> fst (promptText (js ''Continue?'') \<lparr> textDefaultValue = None, allowEmpty = False \<rparr> (managerOn (pipe [])))
       \<noteq> Rejected (Error (js ''TTY input is not available for text prompt''))"
  by (simp add: example_defs promptYesNo_def promptText_def js_def)

text \<open>
  C2. When the manager is not interactive and a default value is given, \<open>promptYesNo\<close>
  and \<open>promptText\<close> resolve to that default and leave the manager as it was; in
  particular nothing is written to the output handle.
\<close>

theorem prompt_default_without_terminal:
  assumes "\<not> isInteractive m"
    and "defaultValue yn = Some d"
    and "textDefaultValue tx = Some t"
  shows "promptYesNo unicodeLower question yn m = (Resolved d, m)
       \<and> promptText question tx m = (Resolved t, m)
       \<and> stdout (snd (promptYesNo unicodeLower question yn m)) = stdout m
       \<and> stdout (snd (promptText question tx m)) = stdout m"
  using assms by (simp add: promptYesNo_def promptText_def)

text \<open>The theorem at a manager whose input is a pipe, with defaults \<open>false\<close> and \<open>Bob\<close>.\<close>

theorem prompt_default_without_terminal_witness:
  "\<not> isInteractive (managerOn (pipe []))
   \<and> promptYesNo (\<lambda>s. s) (js ''Continue?'') \<lparr> defaultValue = Some False \<rparr> (managerOn (pipe [])) =
           (Resolved False, managerOn (pipe []))
   \<and> promptText (js ''Continue?'') \<lparr> textDefaultValue = Some (js ''Bob''), allowEmpty = False \<rparr> (managerOn (pipe [])) =
           (Resolved (js ''Bob''), managerOn (pipe []))
   \<and> stdout (managerOn (pipe [])) = Some \<lparr> written = [] \<rparr>"
proof -
  have ni: "\<not> isInteractive (managerOn (pipe []))"
    by (simp add: example_defs)
  have out: "stdout (managerOn (pipe [])) = Some \<lparr> written = [] \<rparr>"
    by (simp add: example_defs)
  show ?thesis
    using ni out prompt_default_without_terminal [OF ni, of "\<lparr> defaultValue = Some False \<rparr>" False
        "\<lparr> textDefaultValue = Some (js ''Bob''), allowEmpty = False \<rparr>" "js ''Bob''"
        "\<lambda>s. s" "js ''Continue?''"]
    by simp
qed

section \<open>The prompt that is displayed\<close>

lemma stdout_loggerCall [simp]: "stdout (loggerCall lv msg m) = stdout m"
  by (simp add: loggerCall_def split: option.splits)

lemma stdout_consumeLine [simp]: "stdout (consumeLine rest m) = stdout m"
  by (simp add: consumeLine_def)

lemma stdout_writePrompt [simp]:
  "stdout (writePrompt p m) = map_option (\<lambda>out. out\<lparr>written := written out @ [p]\<rparr>) (stdout m)"
  by (simp add: writePrompt_def)

lemma stdout_createInterface [simp]: "stdout (createInterface m) = stdout m"
  by (simp add: createInterface_def)

lemma stdout_closeInterface [simp]: "stdout (closeInterface m) = stdout m"
  by (simp add: closeInterface_def)

lemma yesNoLoop_written:
  "stdout m = Some out \<Longrightarrow>
   \<exists>k>0. stdout (snd (yesNoLoop U p yn ls m)) = Some (out\<lparr>written := written out @ replicate k p\<rparr>)"
proof (induction ls arbitrary: m out)
  case Nil
  then have "stdout (snd (yesNoLoop U p yn [] m)) = Some (out\<lparr>written := written out @ replicate 1 p\<rparr>)"
    by simp
  then show ?case by blast
next
  case (Cons ev rest)
  obtain answer lost where ev: "ev = (answer, lost)" by (cases ev)
  let ?m1 = "consumeLine rest (writePrompt p m)"
  let ?out1 = "out\<lparr>written := written out @ [p]\<rparr>"
  let ?m2 = "loggerCall Warn (js ''Please answer with y or n.'') ?m1"
  have out1: "stdout ?m1 = Some ?out1" using Cons.prems by simp
  have one: "Some ?out1 = Some (out\<lparr>written := written out @ replicate 1 p\<rparr>)" by simp
  from Cons.IH [of ?m2 ?out1] out1
  obtain k where k: "k > 0"
    "stdout (snd (yesNoLoop U p yn rest ?m2)) = Some (?out1\<lparr>written := written ?out1 @ replicate k p\<rparr>)"
    by auto
  have more: "Some (?out1\<lparr>written := written ?out1 @ replicate k p\<rparr>)
      = Some (out\<lparr>written := written out @ replicate (Suc k) p\<rparr>)"
    by simp
  have "stdout (snd (yesNoLoop U p yn (ev # rest) m)) = Some (out\<lparr>written := written out @ replicate 1 p\<rparr>)
      \<or> stdout (snd (yesNoLoop U p yn (ev # rest) m)) = Some (out\<lparr>written := written out @ replicate (Suc k) p\<rparr>)"
    using out1 k(2) more by (simp add: ev Let_def split: option.splits)
  then show ?case by (metis zero_less_Suc zero_less_one)
qed

lemma textLoop_written:
  "stdout m = Some out \<Longrightarrow>
   \<exists>k>0. stdout (snd (textLoop p tx ls m)) = Some (out\<lparr>written := written out @ replicate k p\<rparr>)"
proof (induction ls arbitrary: m out)
  case Nil
  then have "stdout (snd (textLoop p tx [] m)) = Some (out\<lparr>written := written out @ replicate 1 p\<rparr>)"
    by simp
  then show ?case by blast
next
  case (Cons ev rest)
  obtain answer lost where ev: "ev = (answer, lost)" by (cases ev)
  let ?m1 = "consumeLine rest (writePrompt p m)"
  let ?out1 = "out\<lparr>written := written out @ [p]\<rparr>"
  let ?m2 = "loggerCall Warn (js ''Input cannot be empty.'') ?m1"
  have out1: "stdout ?m1 = Some ?out1" using Cons.prems by simp
  from Cons.IH [of ?m2 ?out1] out1
  obtain k where k: "k > 0"
    "stdout (snd (textLoop p tx rest ?m2)) = Some (?out1\<lparr>written := written ?out1 @ replicate k p\<rparr>)"
    by auto
  have more: "Some (?out1\<lparr>written := written ?out1 @ replicate k p\<rparr>)
      = Some (out\<lparr>written := written out @ replicate (Suc k) p\<rparr>)"
    by simp
  have "stdout (snd (textLoop p tx (ev # rest) m)) = Some (out\<lparr>written := written out @ replicate 1 p\<rparr>)
      \<or> stdout (snd (textLoop p tx (ev # rest) m)) = Some (out\<lparr>written := written out @ replicate (Suc k) p\<rparr>)"
    using out1 k(2) more by (simp add: ev Let_def split: option.splits)
  then show ?case by (metis zero_less_Suc zero_less_one)
qed

lemma promptYesNo_stdout:
  "isInteractive m \<Longrightarrow> stdin m = Some sin \<Longrightarrow>
   stdout (snd (promptYesNo U q yn m)) =
   stdout (snd (yesNoLoop U (yesNoPromptText q) yn (pendingInput sin) (createInterface m)))"
  by (auto simp: promptYesNo_def isInteractive_def split: option.splits outcome.splits prod.splits)

lemma promptText_stdout:
  "isInteractive m \<Longrightarrow> stdin m = Some sin \<Longrightarrow>
   stdout (snd (promptText q tx m)) =
   stdout (snd (textLoop (textPromptText q) tx (pendingInput sin) (createInterface m)))"
  by (auto simp: promptText_def isInteractive_def split: option.splits outcome.splits prod.splits)


text \<open>
  C3 (as amended). In an interactive manager \<open>promptYesNo\<close> writes to the output handle,
  once or more, the question with both its leading and its trailing white space removed,
  followed by \<^verbatim>\<open> (y/n): \<close>; \<open>promptText\<close> writes the question trimmed in the same way,
  followed by \<^verbatim>\<open>: \<close>. Nothing else is written.
\<close>

theorem prompts_display_trimmed_question:
  assumes "isInteractive m" and "stdout m = Some out"
  shows "(\<exists>k>0. stdout (snd (promptYesNo unicodeLower question yn m)) =
            Some (out\<lparr>written := written out @ replicate k (trim question @ js '' (y/n): '')\<rparr>))
       \<and> (\<exists>k>0. stdout (snd (promptText question tx m)) =
            Some (out\<lparr>written := written out @ replicate k (trim question @ js '': '')\<rparr>))"
proof -
  from assms(1) obtain sin where sin: "stdin m = Some sin"
    by (auto simp: isInteractive_def split: option.splits)
  have out: "stdout (createInterface m) = Some out" using assms(2) by simp
  show ?thesis
    using yesNoLoop_written [OF out, of unicodeLower "yesNoPromptText question" yn "pendingInput sin"]
      textLoop_written [OF out, of "textPromptText question" tx "pendingInput sin"]
    by (simp add: promptYesNo_stdout [OF assms(1) sin] promptText_stdout [OF assms(1) sin]
        yesNoPromptText_trim textPromptText_trim)
qed


text \<open>The theorem at a terminal where the user types \<open>y\<close>.\<close>

theorem prompts_display_trimmed_question_witness:
  "isInteractive (managerOn (terminal [js ''y'']))
   \<and> stdout (managerOn (terminal [js ''y''])) = Some \<lparr> written = [] \<rparr>
   \<and> (\<exists>k>0. stdout (snd (promptYesNo (\<lambda>s. s) (js '' Continue? '') \<lparr> defaultValue = None \<rparr>
        (managerOn (terminal [js ''y''])))) =
            Some \<lparr>written = replicate k (trim (js '' Continue? '') @ js '' (y/n): '')\<rparr>)
   \<and> (\<exists>k>0. stdout (snd (promptText (js '' Continue? '') \<lparr> textDefaultValue = None, allowEmpty = False \<rparr>
        (managerOn (terminal [js ''y''])))) =
            Some \<lparr>written = replicate k (trim (js '' Continue? '') @ js '': '')\<rparr>)"
proof -
  have i: "isInteractive (managerOn (terminal [js ''y'']))"
    by (simp add: example_defs)
  have out: "stdout (managerOn (terminal [js ''y''])) = Some \<lparr> written = [] \<rparr>"
    by (simp add: example_defs)
  show ?thesis
    using i out prompts_display_trimmed_question [OF i out, of "\<lambda>s. s" "js '' Continue? ''" "\<lparr> defaultValue = None \<rparr>"
        "\<lparr> textDefaultValue = None, allowEmpty = False \<rparr>"]
    by simp
qed


text \<open>
  C3 as stated fails: for the questions \<^verbatim>\<open>" Continue? "\<close> and \<^verbatim>\<open>" Name "\<close> the prompts
  displayed have lost the leading space, which the prompt of the specification keeps.
\<close>

theorem prompts_keep_leading_space_counterexample:
  "isInteractive (managerOn (terminal [js ''y'']))
   \<and> map_option written (stdout (snd (promptYesNo (\<lambda>s. s) (js '' Continue? '') \<lparr> defaultValue = None \<rparr>
        (managerOn (terminal [js ''y''])))))
       = Some [js ''Continue? (y/n): '']
   \<and> specYesNoPromptText (js '' Continue? '') = js '' Continue? (y/n): ''
   \<and> js ''Continue? (y/n): '' \<noteq> js '' Continue? (y/n): ''
   \<and> map_option written (stdout (snd (promptText (js '' Name '') \<lparr> textDefaultValue = None, allowEmpty = False \<rparr>
        (managerOn (terminal [js ''Bob''])))))
       = Some [js ''Name: '']
   \<and> specTextPromptText (js '' Name '') = js '' Name: ''
   \<and> js ''Name: '' \<noteq> js '' Name: ''"
  by (simp add: example_defs eval_defs)

section \<open>Answers to promptYesNo\<close>

lemma logger_consumeLine [simp]: "logger (consumeLine rest m) = logger m"
  by (simp add: consumeLine_def)

lemma logger_writePrompt [simp]: "logger (writePrompt p m) = logger m"
  by (simp add: writePrompt_def)

lemma logger_createInterface [simp]: "logger (createInterface m) = logger m"
  by (simp add: createInterface_def)

lemma logger_closeInterface [simp]: "logger (closeInterface m) = logger m"
  by (simp add: closeInterface_def)

lemma logger_warn:
  "logger m = Some lg \<Longrightarrow> hasWarn lg \<Longrightarrow>
   logger (loggerCall Warn msg m) = Some (lg\<lparr>calls := calls lg @ [(Warn, msg)]\<rparr>)"
  by (simp add: loggerCall_def)

lemma logger_silent:
  "logger m = None \<or> (\<exists>lg. logger m = Some lg \<and> \<not> hasWarn lg) \<Longrightarrow>
   logger (loggerCall Warn msg m) = logger m"
  by (auto simp: loggerCall_def)

lemma answers_distinct:
  "js ''n'' \<noteq> js ''y''" "js ''n'' \<noteq> js ''yes''" "js ''no'' \<noteq> js ''y''" "js ''no'' \<noteq> js ''yes''"
  by (simp_all add: js_def)

lemma yesNoLoop_good:
  assumes "defaultValue yn = None"
    and "toLowerCase U (trim good) \<in> {js ''y'', js ''yes'', js ''n'', js ''no''}"
  shows "yesNoLoop U p yn ((good, lost) # rest) m =
           (Resolved (toLowerCase U (trim good) \<in> {js ''y'', js ''yes''}),
            consumeLine rest (writePrompt p m))"
  using assms answers_distinct by (auto simp: Let_def)

lemma yesNoLoop_bad:
  assumes "defaultValue yn = None"
    and "toLowerCase U (trim bad) \<notin> {js ''y'', js ''yes'', js ''n'', js ''no''}"
  shows "yesNoLoop U p yn ((bad, lost) # rest) m =
           yesNoLoop U p yn rest
             (loggerCall Warn (js ''Please answer with y or n.'') (consumeLine rest (writePrompt p m)))"
  using assms by (auto simp: Let_def)

lemma yesNoLoop_result:
  assumes "defaultValue yn = None"
    and "map fst evs = bad @ good # rest"
    and "\<forall>a\<in>set bad. toLowerCase U (trim a) \<notin> {js ''y'', js ''yes'', js ''n'', js ''no''}"
    and "toLowerCase U (trim good) \<in> {js ''y'', js ''yes'', js ''n'', js ''no''}"
  shows "fst (yesNoLoop U p yn evs m) =
           Resolved (toLowerCase U (trim good) \<in> {js ''y'', js ''yes''})"
  using assms(2,3)
proof (induction bad arbitrary: evs m)
  case Nil
  then obtain lost evs' where "evs = (good, lost) # evs'" by auto
  then show ?case by (simp only: yesNoLoop_good [OF assms(1,4)] fst_conv)
next
  case (Cons b bad)
  from Cons.prems(1) obtain lost evs' where evs: "evs = (b, lost) # evs'"
    and evs': "map fst evs' = bad @ good # rest" by auto
  have b: "toLowerCase U (trim b) \<notin> {js ''y'', js ''yes'', js ''n'', js ''no''}"
    using Cons.prems(2) by simp
  have rest: "\<forall>a\<in>set bad. toLowerCase U (trim a) \<notin> {js ''y'', js ''yes'', js ''n'', js ''no''}"
    using Cons.prems(2) by simp
  show ?case
    by (simp only: evs yesNoLoop_bad [OF assms(1) b] Cons.IH [OF evs' rest])
qed

lemma yesNoLoop_warnings:
  assumes "defaultValue yn = None"
    and "map fst evs = bad @ good # rest"
    and "\<forall>a\<in>set bad. toLowerCase U (trim a) \<notin> {js ''y'', js ''yes'', js ''n'', js ''no''}"
    and "toLowerCase U (trim good) \<in> {js ''y'', js ''yes'', js ''n'', js ''no''}"
    and "logger m = Some lg" and "hasWarn lg"
  shows "logger (snd (yesNoLoop U p yn evs m)) =
           Some (lg\<lparr>calls := calls lg @ replicate (length bad) (Warn, js ''Please answer with y or n.'')\<rparr>)"
  using assms(2,3,5,6)
proof (induction bad arbitrary: evs m lg)
  case Nil
  then obtain lost evs' where evs: "evs = (good, lost) # evs'" by auto
  show ?case using Nil.prems(3)
    by (simp only: evs yesNoLoop_good [OF assms(1,4)]) simp
next
  case (Cons b bad)
  let ?W = "js ''Please answer with y or n.''"
  from Cons.prems(1) obtain lost evs' where evs: "evs = (b, lost) # evs'"
    and evs': "map fst evs' = bad @ good # rest" by auto
  let ?m1 = "loggerCall Warn ?W (consumeLine evs' (writePrompt p m))"
  let ?lg1 = "lg\<lparr>calls := calls lg @ [(Warn, ?W)]\<rparr>"
  have b: "toLowerCase U (trim b) \<notin> {js ''y'', js ''yes'', js ''n'', js ''no''}"
    using Cons.prems(2) by simp
  have rest: "\<forall>a\<in>set bad. toLowerCase U (trim a) \<notin> {js ''y'', js ''yes'', js ''n'', js ''no''}"
    using Cons.prems(2) by simp
  have lg1: "logger ?m1 = Some ?lg1"
    using Cons.prems(3,4) by (simp add: logger_warn)
  have w1: "hasWarn ?lg1" using Cons.prems(4) by simp
  from Cons.IH [OF evs' rest lg1 w1] show ?case
    by (simp only: evs yesNoLoop_bad [OF assms(1) b]) (simp add: replicate_append_same)
qed

lemma yesNoLoop_pending:
  assumes "defaultValue yn = None"
    and "\<forall>a\<in>set (map fst evs). toLowerCase U (trim a) \<notin> {js ''y'', js ''yes'', js ''n'', js ''no''}"
  shows "fst (yesNoLoop U p yn evs m) = Pending"
  using assms(2)
proof (induction evs arbitrary: m)
  case Nil
  show ?case by simp
next
  case (Cons ev evs)
  obtain b lost where ev: "ev = (b, lost)" by (cases ev)
  have b: "toLowerCase U (trim b) \<notin> {js ''y'', js ''yes'', js ''n'', js ''no''}"
    using Cons.prems ev by simp
  have rest: "\<forall>a\<in>set (map fst evs). toLowerCase U (trim a) \<notin> {js ''y'', js ''yes'', js ''n'', js ''no''}"
    using Cons.prems by simp
  show ?case
    by (simp only: ev yesNoLoop_bad [OF assms(1) b] Cons.IH [OF rest])
qed

lemma yesNoLoop_pending_warnings:
  assumes "defaultValue yn = None"
    and "\<forall>a\<in>set (map fst evs). toLowerCase U (trim a) \<notin> {js ''y'', js ''yes'', js ''n'', js ''no''}"
    and "logger m = Some lg" and "hasWarn lg"
  shows "logger (snd (yesNoLoop U p yn evs m)) =
           Some (lg\<lparr>calls := calls lg @ replicate (length evs) (Warn, js ''Please answer with y or n.'')\<rparr>)"
  using assms(2,3,4)
proof (induction evs arbitrary: m lg)
  case Nil
  then show ?case by simp
next
  case (Cons ev evs)
  let ?W = "js ''Please answer with y or n.''"
  obtain b lost where ev: "ev = (b, lost)" by (cases ev)
  let ?m1 = "loggerCall Warn ?W (consumeLine evs (writePrompt p m))"
  let ?lg1 = "lg\<lparr>calls := calls lg @ [(Warn, ?W)]\<rparr>"
  have b: "toLowerCase U (trim b) \<notin> {js ''y'', js ''yes'', js ''n'', js ''no''}"
    using Cons.prems(1) ev by simp
  have rest: "\<forall>a\<in>set (map fst evs). toLowerCase U (trim a) \<notin> {js ''y'', js ''yes'', js ''n'', js ''no''}"
    using Cons.prems(1) by simp
  have lg1: "logger ?m1 = Some ?lg1"
    using Cons.prems(2,3) by (simp add: logger_warn)
  have w1: "hasWarn ?lg1" using Cons.prems(3) by simp
  from Cons.IH [OF rest lg1 w1] show ?case
    by (simp only: ev yesNoLoop_bad [OF assms(1) b]) (simp add: replicate_append_same)
qed

lemma yesNoLoop_silent:
  assumes "logger m = None \<or> (\<exists>lg. logger m = Some lg \<and> \<not> hasWarn lg)"
  shows "logger (snd (yesNoLoop U p yn evs m)) = logger m"
  using assms
proof (induction evs arbitrary: m)
  case Nil
  show ?case by simp
next
  case (Cons ev evs)
  obtain b lost where ev: "ev = (b, lost)" by (cases ev)
  let ?m1 = "consumeLine evs (writePrompt p m)"
  let ?m2 = "loggerCall Warn (js ''Please answer with y or n.'') ?m1"
  have s1: "logger ?m1 = None \<or> (\<exists>lg. logger ?m1 = Some lg \<and> \<not> hasWarn lg)"
    using Cons.prems by simp
  have l2: "logger ?m2 = logger m"
    using logger_silent [OF s1] by simp
  then have s2: "logger ?m2 = None \<or> (\<exists>lg. logger ?m2 = Some lg \<and> \<not> hasWarn lg)"
    using Cons.prems by simp
  from Cons.IH [OF s2] l2 show ?case
    by (simp add: ev Let_def split: option.splits)
qed

lemma promptYesNo_loop:
  assumes "isInteractive m" and "stdin m = Some sin"
  shows "fst (promptYesNo U q yn m) =
           fst (yesNoLoop U (yesNoPromptText q) yn (pendingInput sin) (createInterface m))"
    and "logger (snd (promptYesNo U q yn m)) =
           logger (snd (yesNoLoop U (yesNoPromptText q) yn (pendingInput sin) (createInterface m)))"
  using assms
  by (auto simp: promptYesNo_def isInteractive_def split: option.splits outcome.splits prod.splits)

lemma normalized_examples:
  "toLowerCase U (trim (js '''')) \<notin> {js ''y'', js ''yes'', js ''n'', js ''no''}"
  "toLowerCase U (trim (js ''maybe'')) \<notin> {js ''y'', js ''yes'', js ''n'', js ''no''}"
  "toLowerCase U (trim (js '' Maybe'')) \<notin> {js ''y'', js ''yes'', js ''n'', js ''no''}"
  "toLowerCase U (trim (js ''y'')) = js ''y''"
  "toLowerCase U (trim (js '' YeS '')) = js ''yes''"
  "toLowerCase U (trim (js ''NO'')) = js ''no''"
  by (simp_all add: toLowerCase_def trim_def trimStart_def trimEnd_def js_def isWhiteSpace_def asciiLower_def)

text \<open>
  C4 (as amended). In an interactive manager, with no default value: when the lines
  handed to the successive questions are \<^verbatim>\<open>""\<close>, \<^verbatim>\<open>"maybe"\<close>, \<^verbatim>\<open>"y"\<close> (each line typed
  after the prompt that asks for it), \<open>promptYesNo\<close> resolves to \<open>true\<close>, and a logger with
  a \<^verbatim>\<open>warn\<close> channel has received exactly two warnings \<^verbatim>\<open>Please answer with y or n.\<close>.
  Every line is trimmed and lowercased: after \<^verbatim>\<open>" Maybe"\<close>, the line \<^verbatim>\<open>" YeS "\<close> resolves the
  prompt to \<open>true\<close>, and \<^verbatim>\<open>"NO"\<close> resolves it to \<open>false\<close>. In general the lines that are none
  of \<open>y\<close>, \<open>yes\<close>, \<open>n\<close>, \<open>no\<close> cause one warning each and the loop goes on to the next
  line; the first line that is \<open>y\<close> or \<open>yes\<close> resolves the prompt to \<open>true\<close>, one that is
  \<open>n\<close> or \<open>no\<close> to \<open>false\<close>; when every line is rejected the prompt stays pending.
  The values returned do not depend on the logger; without a logger, or with a logger
  that has no \<^verbatim>\<open>warn\<close> channel, nothing is logged.
\<close>

theorem promptYesNo_answers:
  assumes "isInteractive m" and "stdin m = Some sin"
    and "defaultValue yn = None"
  shows "(map fst (pendingInput sin) = [js '''', js ''maybe'', js ''y''] \<longrightarrow>
            fst (promptYesNo unicodeLower question yn m) = Resolved True
          \<and> (\<forall>lg. logger m = Some lg \<and> hasWarn lg \<longrightarrow>
                logger (snd (promptYesNo unicodeLower question yn m)) =
                  Some (lg\<lparr>calls := calls lg @
                    [(Warn, js ''Please answer with y or n.''), (Warn, js ''Please answer with y or n.'')]\<rparr>)))
       \<and> (map fst (pendingInput sin) = [js '' Maybe'', js '' YeS ''] \<longrightarrow>
            fst (promptYesNo unicodeLower question yn m) = Resolved True)
       \<and> (map fst (pendingInput sin) = [js ''NO''] \<longrightarrow>
            fst (promptYesNo unicodeLower question yn m) = Resolved False)
       \<and> (\<forall>bad good rest.
            map fst (pendingInput sin) = bad @ good # rest
            \<and> (\<forall>a\<in>set bad. toLowerCase unicodeLower (trim a) \<notin> {js ''y'', js ''yes'', js ''n'', js ''no''})
            \<and> toLowerCase unicodeLower (trim good) \<in> {js ''y'', js ''yes'', js ''n'', js ''no''} \<longrightarrow>
              (toLowerCase unicodeLower (trim good) \<in> {js ''y'', js ''yes''} \<longrightarrow>
                 fst (promptYesNo unicodeLower question yn m) = Resolved True)
            \<and> (toLowerCase unicodeLower (trim good) \<in> {js ''n'', js ''no''} \<longrightarrow>
                 fst (promptYesNo unicodeLower question yn m) = Resolved False)
            \<and> (\<forall>lg. logger m = Some lg \<and> hasWarn lg \<longrightarrow>
                  logger (snd (promptYesNo unicodeLower question yn m)) =
                    Some (lg\<lparr>calls := calls lg @
                      replicate (length bad) (Warn, js ''Please answer with y or n.'')\<rparr>)))
       \<and> ((\<forall>a\<in>set (map fst (pendingInput sin)).
              toLowerCase unicodeLower (trim a) \<notin> {js ''y'', js ''yes'', js ''n'', js ''no''}) \<longrightarrow>
            fst (promptYesNo unicodeLower question yn m) = Pending
          \<and> (\<forall>lg. logger m = Some lg \<and> hasWarn lg \<longrightarrow>
                logger (snd (promptYesNo unicodeLower question yn m)) =
                  Some (lg\<lparr>calls := calls lg @
                    replicate (length (pendingInput sin)) (Warn, js ''Please answer with y or n.'')\<rparr>)))
       \<and> (logger m = None \<or> (\<exists>lg. logger m = Some lg \<and> \<not> hasWarn lg) \<longrightarrow>
            logger (snd (promptYesNo unicodeLower question yn m)) = logger m)"
proof -
  let ?p = "yesNoPromptText question"
  let ?m0 = "createInterface m"
  let ?V = "{js ''y'', js ''yes'', js ''n'', js ''no''}"
  let ?P = "promptYesNo unicodeLower question yn m"
  let ?W = "(Warn, js ''Please answer with y or n.'')"
  note loop = promptYesNo_loop [OF assms(1,2), of unicodeLower question yn]
  have general: "(toLowerCase unicodeLower (trim good) \<in> {js ''y'', js ''yes''} \<longrightarrow> fst ?P = Resolved True)
            \<and> (toLowerCase unicodeLower (trim good) \<in> {js ''n'', js ''no''} \<longrightarrow> fst ?P = Resolved False)
            \<and> (\<forall>lg. logger m = Some lg \<and> hasWarn lg \<longrightarrow>
                  logger (snd ?P) = Some (lg\<lparr>calls := calls lg @ replicate (length bad) ?W\<rparr>))"
    if lines: "map fst (pendingInput sin) = bad @ good # rest"
      and bad: "\<forall>a\<in>set bad. toLowerCase unicodeLower (trim a) \<notin> ?V"
      and good: "toLowerCase unicodeLower (trim good) \<in> ?V"
    for bad good rest
  proof -
    have r: "fst ?P = Resolved (toLowerCase unicodeLower (trim good) \<in> {js ''y'', js ''yes''})"
      using yesNoLoop_result [OF assms(3) lines bad good, of ?p ?m0] by (simp add: loop)
    have w: "logger (snd ?P) = Some (lg\<lparr>calls := calls lg @ replicate (length bad) ?W\<rparr>)"
      if "logger m = Some lg" "hasWarn lg" for lg
    proof -
      have "logger ?m0 = Some lg" using that(1) by simp
      from yesNoLoop_warnings [OF assms(3) lines bad good this that(2), of ?p]
      show ?thesis by (simp add: loop)
    qed
    from r w answers_distinct show ?thesis by auto
  qed
  have concrete: "fst ?P = Resolved True
          \<and> (\<forall>lg. logger m = Some lg \<and> hasWarn lg \<longrightarrow>
                logger (snd ?P) = Some (lg\<lparr>calls := calls lg @ [?W, ?W]\<rparr>))"
    if "map fst (pendingInput sin) = [js '''', js ''maybe'', js ''y'']"
    using general [of "[js '''', js ''maybe'']" "js ''y''" "[]"] that
      normalized_examples [of unicodeLower]
    by simp
  have upper: "fst ?P = Resolved True"
    if "map fst (pendingInput sin) = [js '' Maybe'', js '' YeS '']"
    using general [of "[js '' Maybe'']" "js '' YeS ''" "[]"] that
      normalized_examples [of unicodeLower]
    by simp
  have upper_no: "fst ?P = Resolved False"
    if "map fst (pendingInput sin) = [js ''NO'']"
    using general [of "[]" "js ''NO''" "[]"] that normalized_examples [of unicodeLower]
      answers_distinct
    by simp
  have pend: "fst ?P = Pending
          \<and> (\<forall>lg. logger m = Some lg \<and> hasWarn lg \<longrightarrow>
                logger (snd ?P) = Some (lg\<lparr>calls := calls lg @ replicate (length (pendingInput sin)) ?W\<rparr>))"
    if bad: "\<forall>a\<in>set (map fst (pendingInput sin)). toLowerCase unicodeLower (trim a) \<notin> ?V"
  proof -
    have r: "fst ?P = Pending"
      using yesNoLoop_pending [OF assms(3) bad, of ?p ?m0] by (simp add: loop)
    have w: "logger (snd ?P) = Some (lg\<lparr>calls := calls lg @ replicate (length (pendingInput sin)) ?W\<rparr>)"
      if "logger m = Some lg" "hasWarn lg" for lg
    proof -
      have "logger ?m0 = Some lg" using that(1) by simp
      from yesNoLoop_pending_warnings [OF assms(3) bad this that(2), of ?p]
      show ?thesis by (simp add: loop)
    qed
    from r w show ?thesis by blast
  qed
  have silent: "logger (snd ?P) = logger m"
    if "logger m = None \<or> (\<exists>lg. logger m = Some lg \<and> \<not> hasWarn lg)"
  proof -
    have "logger ?m0 = None \<or> (\<exists>lg. logger ?m0 = Some lg \<and> \<not> hasWarn lg)"
      using that by simp
    from yesNoLoop_silent [OF this, of unicodeLower ?p yn "pendingInput sin"]
    show ?thesis by (simp add: loop)
  qed
  from general concrete upper upper_no pend silent show ?thesis by blast
qed

text \<open>
  The theorem at a terminal where the user types the three lines of the claim, each one
  after its prompt, and at terminals where the user types in upper case.
\<close>

theorem promptYesNo_answers_witness:
  "isInteractive (managerOn (terminal [js '''', js ''maybe'', js ''y'']))
   \<and> stdin (managerOn (terminal [js '''', js ''maybe'', js ''y''])) =
        Some (terminal [js '''', js ''maybe'', js ''y''])
   \<and> map fst (pendingInput (terminal [js '''', js ''maybe'', js ''y''])) = [js '''', js ''maybe'', js ''y'']
   \<and> logger (managerOn (terminal [js '''', js ''maybe'', js ''y''])) = Some exampleLogger
   \<and> hasWarn exampleLogger
   \<and> fst (promptYesNo (\<lambda>s. s) (js ''Continue?'') \<lparr> defaultValue = None \<rparr>
        (managerOn (terminal [js '''', js ''maybe'', js ''y'']))) = Resolved True
   \<and> logger (snd (promptYesNo (\<lambda>s. s) (js ''Continue?'') \<lparr> defaultValue = None \<rparr>
        (managerOn (terminal [js '''', js ''maybe'', js ''y''])))) =
       Some (exampleLogger\<lparr>calls :=
         [(Warn, js ''Please answer with y or n.''), (Warn, js ''Please answer with y or n.'')]\<rparr>)
   \<and> fst (promptYesNo (\<lambda>s. s) (js ''Continue?'') \<lparr> defaultValue = None \<rparr>
        (managerOn (terminal [js '' Maybe'', js '' YeS '']))) = Resolved True
   \<and> fst (promptYesNo (\<lambda>s. s) (js ''Continue?'') \<lparr> defaultValue = None \<rparr>
        (managerOn (terminal [js ''NO'']))) = Resolved False"
proof -
  let ?m = "managerOn (terminal [js '''', js ''maybe'', js ''y''])"
  have i: "isInteractive (managerOn (terminal ls))" for ls by (simp add: example_defs)
  have s: "stdin (managerOn (terminal ls)) = Some (terminal ls)" for ls
    by (simp add: managerOn_def newInputManager_def)
  have l: "logger ?m = Some exampleLogger" by (simp add: managerOn_def newInputManager_def)
  have w: "hasWarn exampleLogger" by (simp add: exampleLogger_def)
  have d: "defaultValue \<lparr> defaultValue = None \<rparr> = None" by simp
  have p: "map fst (pendingInput (terminal ls)) = ls" for ls
    by (simp add: terminal_def comp_def)
  have c: "calls exampleLogger = []" by (simp add: exampleLogger_def)
  show ?thesis
    using i s l w c
      p [of "[js '''', js ''maybe'', js ''y'']"] p [of "[js '' Maybe'', js '' YeS '']"] p [of "[js ''NO'']"]
      promptYesNo_answers [OF i s d, of "[js '''', js ''maybe'', js ''y'']" "\<lambda>s. s" "js ''Continue?''"]
      promptYesNo_answers [OF i s d, of "[js '' Maybe'', js '' YeS '']" "\<lambda>s. s" "js ''Continue?''"]
      promptYesNo_answers [OF i s d, of "[js ''NO'']" "\<lambda>s. s" "js ''Continue?''"]
    by simp
qed

text \<open>
  C4 as stated fails: when the three lines \<^verbatim>\<open>""\<close>, \<^verbatim>\<open>"maybe"\<close>, \<^verbatim>\<open>"y"\<close> reach the terminal in
  one data event, the first line answers the pending question and the other two are lost;
  \<open>promptYesNo\<close> logs one warning, displays the prompt again and stays pending.
\<close>

theorem promptYesNo_lines_at_once_counterexample:
  "isInteractive (managerOn (pastingTerminal (js '''') [js ''maybe'', js ''y'']))
   \<and> pendingInput (pastingTerminal (js '''') [js ''maybe'', js ''y'']) =
        [(js '''', [js ''maybe'', js ''y''])]
   \<and> fst (promptYesNo (\<lambda>s. s) (js ''Continue?'') \<lparr> defaultValue = None \<rparr>
        (managerOn (pastingTerminal (js '''') [js ''maybe'', js ''y'']))) = Pending
   \<and> fst (promptYesNo (\<lambda>s. s) (js ''Continue?'') \<lparr> defaultValue = None \<rparr>
        (managerOn (pastingTerminal (js '''') [js ''maybe'', js ''y'']))) \<noteq> Resolved True
   \<and> logger (snd (promptYesNo (\<lambda>s. s) (js ''Continue?'') \<lparr> defaultValue = None \<rparr>
        (managerOn (pastingTerminal (js '''') [js ''maybe'', js ''y''])))) =
       Some (exampleLogger\<lparr>calls := [(Warn, js ''Please answer with y or n.'')]\<rparr>)
   \<and> map_option written (stdout (snd (promptYesNo (\<lambda>s. s) (js ''Continue?'') \<lparr> defaultValue = None \<rparr>
        (managerOn (pastingTerminal (js '''') [js ''maybe'', js ''y'']))))) =
       Some [js ''Continue? (y/n): '', js ''Continue? (y/n): '']"
  by (simp add: example_defs eval_defs)

section \<open>Empty answers to promptText\<close>


lemma close_create [simp]:
  "closeInterface (consumeLine rest (writePrompt p (createInterface m))) = consumeLine rest (writePrompt p m)"
  by (simp add: createInterface_def closeInterface_def consumeLine_def writePrompt_def)

lemma isInteractive_step [simp]:
  "isInteractive (loggerCall lv msg (consumeLine rest (writePrompt p m))) = isInteractive m"
  by (cases "stdin m"; cases "stdout m")
     (simp_all add: isInteractive_def loggerCall_def consumeLine_def writePrompt_def split: option.splits)





section \<open>Facts about raw mode\<close>

lemmas raw_defs = enableRawMode_def disableRawMode_def switchRawOn_def switchRawOff_def off_def
  loggerCall_def emitData_def registeredListeners_def attachManualControls_def
  manualControlKey_def named_def exampleHandlers_def

lemma stdin_loggerCall [simp]: "stdin (loggerCall lv msg m) = stdin m"
  by (simp add: loggerCall_def split: option.splits)

lemma registered_loggerCall [simp]: "registeredListeners (loggerCall lv msg m) = registeredListeners m"
  by (simp add: registeredListeners_def)

lemma rawInputHandler_loggerCall [simp]: "rawInputHandler (loggerCall lv msg m) = rawInputHandler m"
  by (simp add: loggerCall_def split: option.splits)

lemma rawModeEnabled_loggerCall [simp]: "rawModeEnabled (loggerCall lv msg m) = rawModeEnabled m"
  by (simp add: loggerCall_def split: option.splits)

lemma switchRawOn_listeners:
  "switchRawOn s = Inl s' \<Longrightarrow> dataListeners s' = dataListeners s"
  "switchRawOn s = Inr s' \<Longrightarrow> dataListeners s' = dataListeners s"
  by (auto simp: switchRawOn_def Let_def split: if_splits)

lemma switchRawOn_again:
  "switchRawOn s = Inr s' \<Longrightarrow> switchRawOn (s'\<lparr>dataListeners := ls\<rparr>) = Inr (s'\<lparr>dataListeners := ls\<rparr>)"
  by (auto simp: switchRawOn_def Let_def split: if_splits)

lemma switchRawOn_isTTY:
  "switchRawOn s = Inr s' \<Longrightarrow> isTTY s' = isTTY s"
  by (auto simp: switchRawOn_def Let_def split: if_splits)

lemma switchRawOff_listeners:
  "switchRawOff s = Inl s' \<Longrightarrow> dataListeners s' = dataListeners s"
  "switchRawOff s = Inr s' \<Longrightarrow> dataListeners s' = dataListeners s"
  by (auto simp: switchRawOff_def Let_def split: if_splits)

lemma enableRawMode_cases:
  obtains (none) "stdin m = None" "enableRawMode ts h m = (False, m)"
  | (notty) s where "stdin m = Some s" "\<not> isTTY s" "enableRawMode ts h m = (False, m)"
  | (threw) s s' where "stdin m = Some s" "isTTY s" "switchRawOn s = Inl s'"
      "enableRawMode ts h m =
         (False, loggerCall Err (js ''Failed to enable raw mode input:'') (m\<lparr>stdin := Some s'\<rparr>))"
  | (attached) s s' where "stdin m = Some s" "isTTY s" "switchRawOn s = Inr s'"
      "enableRawMode ts h m =
         (True, m\<lparr>stdin := Some (s'\<lparr>dataListeners := dataListeners s' @
                       [Listener (nextId m) (\<lambda>data. h (ts data))]\<rparr>),
                  rawModeEnabled := True,
                  rawInputHandler := Some (Listener (nextId m) (\<lambda>data. h (ts data))),
                  nextId := Suc (nextId m)\<rparr>)"
proof (cases "stdin m")
  case None
  then show ?thesis using none by (simp add: enableRawMode_def)
next
  case (Some s)
  show ?thesis
  proof (cases "isTTY s")
    case False
    with Some show ?thesis using notty by (simp add: enableRawMode_def)
  next
    case True
    show ?thesis
    proof (cases "switchRawOn s")
      case (Inl s')
      with Some True show ?thesis using threw by (simp add: enableRawMode_def)
    next
      case (Inr s')
      with Some True show ?thesis using attached by (simp add: enableRawMode_def Let_def)
    qed
  qed
qed

lemma enableRawMode_True:
  assumes "enableRawMode ts h m = (True, m')"
  shows "registeredListeners m' = registeredListeners m @ [Listener (nextId m) (\<lambda>data. h (ts data))]"
    and "rawInputHandler m' = Some (Listener (nextId m) (\<lambda>data. h (ts data)))"
    and "rawModeEnabled m'"
    and "nextId m' = Suc (nextId m)"
    and "\<exists>s. stdin m = Some s \<and> isTTY s"
    and "stdin m' \<noteq> None"
  using assms
  by (cases rule: enableRawMode_cases [where m=m and ts=ts and h=h];
      simp add: registeredListeners_def switchRawOn_listeners; fastforce)+

lemma enableRawMode_False:
  assumes "enableRawMode ts h m = (False, m')"
  shows "registeredListeners m' = registeredListeners m"
    and "rawInputHandler m' = rawInputHandler m"
    and "rawModeEnabled m' = rawModeEnabled m"
  using assms
  by (cases rule: enableRawMode_cases [where m=m and ts=ts and h=h];
      auto simp add: registeredListeners_def switchRawOn_listeners)+

lemma enableRawMode_again:
  assumes "enableRawMode ts h m = (True, m1)"
  shows "fst (enableRawMode ts h2 m1) = True"
proof (cases rule: enableRawMode_cases [where m=m and ts=ts and h=h])
  case (attached s s')
  let ?s1 = "s'\<lparr>dataListeners := dataListeners s' @ [Listener (nextId m) (\<lambda>data. h (ts data))]\<rparr>"
  from attached assms have "stdin m1 = Some ?s1" by auto
  moreover have "isTTY ?s1" using attached switchRawOn_isTTY [of s s'] by simp
  moreover have "switchRawOn ?s1 = Inr ?s1" using attached switchRawOn_again by blast
  ultimately show ?thesis by (simp add: enableRawMode_def Let_def)
qed (use assms in auto)

lemma disableRawMode_handler:
  "stdin m \<noteq> None \<Longrightarrow> rawInputHandler (disableRawMode m) = None"
  by (auto simp: disableRawMode_def Let_def split: option.splits sum.splits)

lemma disableRawMode_registered:
  "registeredListeners (disableRawMode m) =
     (case rawInputHandler m of
        None \<Rightarrow> registeredListeners m
      | Some l \<Rightarrow> rev (removeFirst (lid l) (rev (registeredListeners m))))"
  by (auto simp: disableRawMode_def registeredListeners_def off_def Let_def switchRawOff_listeners
      split: option.splits sum.splits)


section \<open>Raw mode without a terminal\<close>

text \<open>
  C6. When the input handle of the manager does not report terminal attachment (or there
  is no input handle), \<open>enableRawMode\<close> returns \<open>false\<close> and leaves the manager and its
  streams as they were, so no listener is registered; on a manager as the constructor
  made it, the \<open>disableRawMode\<close> that follows changes nothing either. \<open>disableRawMode\<close>
  has no path that throws: the calls that may throw are inside its \<^verbatim>\<open>try\<close> block.
\<close>

theorem enableRawMode_without_terminal:
  assumes "\<forall>s. stdin m = Some s \<longrightarrow> \<not> isTTY s"
  shows "enableRawMode toString handler m = (False, m)
       \<and> (m = newInputManager defaultStdin defaultStdout options \<longrightarrow>
            disableRawMode (snd (enableRawMode toString handler m)) = m)"
proof -
  have e: "enableRawMode toString handler m = (False, m)"
    using assms by (cases "stdin m") (simp_all add: enableRawMode_def)
  have d: "disableRawMode m = m" if "m = newInputManager defaultStdin defaultStdout options"
    by (simp add: that disableRawMode_def newInputManager_def Let_def split: option.splits)
  show ?thesis
  proof (intro conjI impI)
    show "enableRawMode toString handler m = (False, m)" by (rule e)
    assume "m = newInputManager defaultStdin defaultStdout options"
    then have "disableRawMode m = m" by (rule d)
    then show "disableRawMode (snd (enableRawMode toString handler m)) = m"
      by (simp only: e snd_conv)
  qed
qed


text \<open>The theorem at a manager whose input is a pipe.\<close>

theorem enableRawMode_without_terminal_witness:
  "stdin (managerOn (pipe [])) = Some (pipe [])
   \<and> \<not> isTTY (pipe [])
   \<and> managerOn (pipe []) = newInputManager None None
        \<lparr> optStdin = Some (pipe []), optStdout = Some \<lparr> written = [] \<rparr>, optLogger = Some exampleLogger \<rparr>
   \<and> enableRawMode (\<lambda>b. b) (named ''h'') (managerOn (pipe [])) = (False, managerOn (pipe []))
   \<and> disableRawMode (snd (enableRawMode (\<lambda>b. b) (named ''h'') (managerOn (pipe [])))) = managerOn (pipe [])
   \<and> registeredListeners (managerOn (pipe [])) = []"
proof -
  have s: "stdin (managerOn (pipe [])) = Some (pipe [])"
    by (simp add: managerOn_def newInputManager_def)
  have t: "\<not> isTTY (pipe [])"
    by (simp add: pipe_def)
  from s t have n: "\<forall>s. stdin (managerOn (pipe [])) = Some s \<longrightarrow> \<not> isTTY s"
    by simp
  have r: "registeredListeners (managerOn (pipe [])) = []"
    by (simp add: example_defs registeredListeners_def)
  have c: "managerOn (pipe []) = newInputManager None None
        \<lparr> optStdin = Some (pipe []), optStdout = Some \<lparr> written = [] \<rparr>, optLogger = Some exampleLogger \<rparr>"
    by (simp only: managerOn_def)
  show ?thesis
    using s t r c enableRawMode_without_terminal [OF n, of "\<lambda>b. b" "named ''h''" None None
        "\<lparr> optStdin = Some (pipe []), optStdout = Some \<lparr> written = [] \<rparr>, optLogger = Some exampleLogger \<rparr>"]
    by blast
qed

section \<open>Enabling, disabling and enabling again\<close>

text \<open>
  C7 (as amended). On a manager with no raw handler attached, when \<open>enableRawMode h\<close>,
  \<open>disableRawMode\<close>, \<open>enableRawMode h2\<close> are called in this order and the second
  \<open>enableRawMode\<close> returns \<open>true\<close>: exactly one listener has been added to those
  registered before, it is the stored handler and it forwards to \<open>h2\<close>; a chunk emitted
  afterwards calls \<open>h2\<close> once and does not call \<open>h\<close> through a listener of the manager.
  On a stream with no other listener it is the only listener.
\<close>

theorem raw_mode_round_trip:
  assumes "rawInputHandler m = None"
    and "enableRawMode toString h2 (disableRawMode (snd (enableRawMode toString h m))) = (True, m3)"
  shows "(\<exists>l. registeredListeners m3 = registeredListeners m @ [l]
            \<and> rawInputHandler m3 = Some l
            \<and> run l = (\<lambda>data. h2 (toString data)))
       \<and> emitData data m3 u = h2 (toString data) (emitData data m u)
       \<and> (registeredListeners m = [] \<longrightarrow>
            length (registeredListeners m3) = 1 \<and> emitData data m3 u = h2 (toString data) u)"
proof -
  obtain r1 m1 where e1: "enableRawMode toString h m = (r1, m1)" by fastforce
  let ?m2 = "disableRawMode m1"
  have restored: "registeredListeners ?m2 = registeredListeners m"
  proof (cases r1)
    case True
    with e1 enableRawMode_True [of toString h m m1] show ?thesis
      by (simp add: disableRawMode_registered)
  next
    case False
    with e1 enableRawMode_False [of toString h m m1] assms(1) show ?thesis
      by (simp add: disableRawMode_registered)
  qed
  let ?l = "Listener (nextId ?m2) (\<lambda>data. h2 (toString data))"
  from assms(2) e1 have e2: "enableRawMode toString h2 ?m2 = (True, m3)" by simp
  have reg: "registeredListeners m3 = registeredListeners m @ [?l]"
    using enableRawMode_True(1) [OF e2] restored by simp
  have hd: "rawInputHandler m3 = Some ?l"
    using enableRawMode_True(2) [OF e2] .
  have emit: "emitData data m3 u = h2 (toString data) (emitData data m u)"
    by (simp add: emitData_def reg)
  have "\<exists>l. registeredListeners m3 = registeredListeners m @ [l]
            \<and> rawInputHandler m3 = Some l \<and> run l = (\<lambda>data. h2 (toString data))"
    using reg hd by (intro exI [of _ ?l]) simp
  moreover have "registeredListeners m = [] \<longrightarrow>
            length (registeredListeners m3) = 1 \<and> emitData data m3 u = h2 (toString data) u"
    using reg emit by (simp add: emitData_def)
  ultimately show ?thesis using emit by blast
qed


text \<open>The theorem at a terminal with no listener, with handlers that record their name.\<close>

theorem raw_mode_round_trip_witness:
  "rawInputHandler (managerOn (terminal [])) = None
   \<and> fst (enableRawMode (\<lambda>b. b) (named ''h2'')
        (disableRawMode (snd (enableRawMode (\<lambda>b. b) (named ''h'') (managerOn (terminal [])))))) = True
   \<and> registeredListeners (managerOn (terminal [])) = []
   \<and> length (registeredListeners (snd (enableRawMode (\<lambda>b. b) (named ''h2'')
        (disableRawMode (snd (enableRawMode (\<lambda>b. b) (named ''h'') (managerOn (terminal [])))))))) = 1
   \<and> emitData (js ''x'') (snd (enableRawMode (\<lambda>b. b) (named ''h2'')
        (disableRawMode (snd (enableRawMode (\<lambda>b. b) (named ''h'') (managerOn (terminal []))))))) [] = [''h2'']"
proof -
  let ?m = "managerOn (terminal [])"
  let ?e = "enableRawMode (\<lambda>b. b) (named ''h2'') (disableRawMode (snd (enableRawMode (\<lambda>b. b) (named ''h'') ?m)))"
  have f: "rawInputHandler ?m = None" by (simp add: example_defs)
  have t: "fst ?e = True" by (simp add: example_defs raw_defs Let_def)
  then have e: "?e = (True, snd ?e)" by (metis prod.collapse)
  have r: "registeredListeners ?m = []" by (simp add: example_defs registeredListeners_def)
  have n: "named ''h2'' (js ''x'') [] = [''h2'']" by (simp add: named_def)
  have e0: "emitData (js ''x'') ?m [] = []" by (simp add: emitData_def r)
  show ?thesis
    using f t r n e0 raw_mode_round_trip [OF f e, of "js ''x''" "[]"]
    by simp
qed


text \<open>
  C7 as stated fails: on a terminal whose \<^verbatim>\<open>setRawMode\<close> throws, both calls of
  \<open>enableRawMode\<close> return \<open>false\<close>, no listener is registered after the three calls and a
  chunk emitted afterwards does not reach \<open>h2\<close>.
\<close>

theorem raw_mode_round_trip_counterexample:
  "stdin (managerOn failingTerminal) = Some failingTerminal
   \<and> isTTY failingTerminal
   \<and> registeredListeners (snd (enableRawMode (\<lambda>b. b) (named ''h2'')
        (disableRawMode (snd (enableRawMode (\<lambda>b. b) (named ''h'') (managerOn failingTerminal)))))) = []
   \<and> emitData (js ''x'') (snd (enableRawMode (\<lambda>b. b) (named ''h2'')
        (disableRawMode (snd (enableRawMode (\<lambda>b. b) (named ''h'') (managerOn failingTerminal)))))) [] = []
   \<and> named ''h2'' (js ''x'') [] = [''h2'']"
  by (simp add: example_defs raw_defs Let_def)


section \<open>Enabling twice\<close>

text \<open>
  C8 (as amended). When \<open>enableRawMode h\<close> has attached a handler and \<open>enableRawMode h2\<close>
  is called again and returns \<open>true\<close>, whatever happened to the stream in between as long
  as its listeners and the manager's handler are the same: the stored handler becomes a new
  listener, with another identity, forwarding to \<open>h2\<close>; the listener of the first call
  stays registered, so a chunk emitted afterwards calls \<open>h\<close> and then \<open>h2\<close>; the
  \<open>disableRawMode\<close> that follows removes the listener stored last only, clears the stored
  handler, and a chunk emitted after it still calls \<open>h\<close>.
\<close>

theorem enableRawMode_twice:
  assumes "enableRawMode toString h m = (True, m1)"
    and "registeredListeners m1' = registeredListeners m1"
    and "rawInputHandler m1' = rawInputHandler m1"
    and "nextId m1' = nextId m1"
    and "enableRawMode toString h2 m1' = (True, m2)"
  shows "(\<exists>l1 l2. rawInputHandler m1' = Some l1 \<and> rawInputHandler m2 = Some l2
            \<and> lid l1 \<noteq> lid l2
            \<and> run l1 = (\<lambda>data. h (toString data)) \<and> run l2 = (\<lambda>data. h2 (toString data))
            \<and> registeredListeners m1' = registeredListeners m @ [l1]
            \<and> registeredListeners m2 = registeredListeners m @ [l1, l2]
            \<and> registeredListeners (disableRawMode m2) = registeredListeners m @ [l1]
            \<and> rawInputHandler (disableRawMode m2) = None)
       \<and> emitData data m2 u = h2 (toString data) (h (toString data) (emitData data m u))
       \<and> emitData data (disableRawMode m2) u = h (toString data) (emitData data m u)"
proof -
  let ?l1 = "Listener (nextId m) (\<lambda>data. h (toString data))"
  let ?l2 = "Listener (nextId m1') (\<lambda>data. h2 (toString data))"
  note first = enableRawMode_True [OF assms(1)]
  note second = enableRawMode_True [OF assms(5)]
  have reg1: "registeredListeners m1' = registeredListeners m @ [?l1]"
    using first(1) assms(2) by simp
  have hd1: "rawInputHandler m1' = Some ?l1"
    using first(2) assms(3) by simp
  have reg2: "registeredListeners m2 = registeredListeners m @ [?l1, ?l2]"
    using second(1) reg1 by simp
  have ids: "lid ?l1 \<noteq> lid ?l2" using first(4) assms(4) by simp
  have reg3: "registeredListeners (disableRawMode m2) = registeredListeners m @ [?l1]"
    using ids by (simp add: disableRawMode_registered second(2) reg2)
  have none: "rawInputHandler (disableRawMode m2) = None"
    using second(6) by (rule disableRawMode_handler)
  have ex: "\<exists>l1 l2. rawInputHandler m1' = Some l1 \<and> rawInputHandler m2 = Some l2
            \<and> lid l1 \<noteq> lid l2
            \<and> run l1 = (\<lambda>data. h (toString data)) \<and> run l2 = (\<lambda>data. h2 (toString data))
            \<and> registeredListeners m1' = registeredListeners m @ [l1]
            \<and> registeredListeners m2 = registeredListeners m @ [l1, l2]
            \<and> registeredListeners (disableRawMode m2) = registeredListeners m @ [l1]
            \<and> rawInputHandler (disableRawMode m2) = None"
    using hd1 second(2) ids reg1 reg2 reg3 none
    by (intro exI [of _ ?l1] exI [of _ ?l2]) simp
  have emit2: "emitData data m2 u = h2 (toString data) (h (toString data) (emitData data m u))"
    by (simp add: emitData_def reg2)
  have emit3: "emitData data (disableRawMode m2) u = h (toString data) (emitData data m u)"
    by (simp add: emitData_def reg3)
  from ex emit2 emit3 show ?thesis by blast
qed

text \<open>
  The theorem at a terminal with no listener, with handlers that record their name and
  nothing happening to the stream between the two calls.
\<close>

theorem enableRawMode_twice_witness:
  "fst (enableRawMode (\<lambda>b. b) (named ''old'') (managerOn (terminal []))) = True
   \<and> fst (enableRawMode (\<lambda>b. b) (named ''new'')
        (snd (enableRawMode (\<lambda>b. b) (named ''old'') (managerOn (terminal []))))) = True
   \<and> emitData (js ''x'') (snd (enableRawMode (\<lambda>b. b) (named ''new'')
        (snd (enableRawMode (\<lambda>b. b) (named ''old'') (managerOn (terminal [])))))) [] = [''old'', ''new'']
   \<and> emitData (js ''x'') (disableRawMode (snd (enableRawMode (\<lambda>b. b) (named ''new'')
        (snd (enableRawMode (\<lambda>b. b) (named ''old'') (managerOn (terminal []))))))) [] = [''old'']"
proof -
  let ?m = "managerOn (terminal [])"
  let ?e1 = "enableRawMode (\<lambda>b. b) (named ''old'') ?m"
  let ?e2 = "enableRawMode (\<lambda>b. b) (named ''new'') (snd ?e1)"
  have t1: "fst ?e1 = True" by (simp add: example_defs raw_defs Let_def)
  then have e1: "?e1 = (True, snd ?e1)" by (metis prod.collapse)
  have t2: "fst ?e2 = True" by (simp add: example_defs raw_defs Let_def)
  then have e2: "?e2 = (True, snd ?e2)" by (metis prod.collapse)
  have e0: "emitData (js ''x'') ?m [] = []"
    by (simp add: emitData_def example_defs registeredListeners_def)
  show ?thesis
    using t1 t2 e0 enableRawMode_twice [OF e1 refl refl refl e2, of "js ''x''" "[]"]
    by (simp add: named_def)
qed

text \<open>
  C8 as stated fails: when the terminal starts to refuse the switch of its mode after the
  first handler is attached, the second \<open>enableRawMode\<close> returns \<open>false\<close>, the stored
  handler is still the listener of the first call, a chunk emitted afterwards calls the old
  handler only, and the \<open>disableRawMode\<close> that follows detaches the old listener.
\<close>

theorem enableRawMode_twice_counterexample:
  "fst (enableRawMode (\<lambda>b. b) (named ''old'') (managerOn (terminal []))) = True
   \<and> fst (enableRawMode (\<lambda>b. b) (named ''new'')
        (refuseRawMode (snd (enableRawMode (\<lambda>b. b) (named ''old'') (managerOn (terminal [])))))) = False
   \<and> map_option lid (rawInputHandler (snd (enableRawMode (\<lambda>b. b) (named ''new'')
        (refuseRawMode (snd (enableRawMode (\<lambda>b. b) (named ''old'') (managerOn (terminal [])))))))) =
      map_option lid (rawInputHandler (snd (enableRawMode (\<lambda>b. b) (named ''old'') (managerOn (terminal [])))))
   \<and> emitData (js ''x'') (snd (enableRawMode (\<lambda>b. b) (named ''new'')
        (refuseRawMode (snd (enableRawMode (\<lambda>b. b) (named ''old'') (managerOn (terminal []))))))) []
       = [''old'']
   \<and> emitData (js ''x'') (disableRawMode (snd (enableRawMode (\<lambda>b. b) (named ''new'')
        (refuseRawMode (snd (enableRawMode (\<lambda>b. b) (named ''old'') (managerOn (terminal [])))))))) []
       = []"
  by (simp add: example_defs raw_defs refuseRawMode_def Let_def)

section \<open>Manual controls\<close>





text \<open>
  C10. The listener of \<open>attachManualControls\<close> compares the whole text of the chunk: a
  chunk whose text is none of ESC, carriage return and line feed calls neither \<open>onExit\<close>
  nor \<open>onAdvance\<close>; this holds for \<^verbatim>\<open>"\r\n"\<close> delivered at once and for the arrow-key
  sequence \<^verbatim>\<open>"\u001b[A"\<close>.
\<close>

theorem manual_controls_other_chunks:
  assumes "toString data \<noteq> [0x1B]" and "toString data \<noteq> [0x0D]" and "toString data \<noteq> [0x0A]"
  shows "emitData data (snd (attachManualControls toString handlers m)) u = emitData data m u
       \<and> manualControlKey handlers [0x0D, 0x0A] u = u
       \<and> manualControlKey handlers [0x1B, 0x5B, 0x41] u = u"
proof -
  obtain r m' where a: "enableRawMode toString (manualControlKey handlers) m = (r, m')"
    by fastforce
  have "emitData data m' u = emitData data m u"
  proof (cases r)
    case True
    with a enableRawMode_True(1) [of toString "manualControlKey handlers" m m'] assms
    show ?thesis by (simp add: emitData_def manualControlKey_def)
  next
    case False
    with a enableRawMode_False(1) [of toString "manualControlKey handlers" m m']
    show ?thesis by (simp add: emitData_def)
  qed
  with a show ?thesis by (simp add: attachManualControls_def manualControlKey_def)
qed


text \<open>The theorem at a terminal with no listener, for three such chunks.\<close>

theorem manual_controls_other_chunks_witness:
  "fst (attachManualControls (\<lambda>b. b) exampleHandlers (managerOn (terminal []))) = True
   \<and> emitData [0x0D, 0x0A] (snd (attachManualControls (\<lambda>b. b) exampleHandlers (managerOn (terminal [])))) [] = []
   \<and> emitData [0x1B, 0x5B, 0x41] (snd (attachManualControls (\<lambda>b. b) exampleHandlers (managerOn (terminal [])))) [] = []
   \<and> emitData (js ''q'') (snd (attachManualControls (\<lambda>b. b) exampleHandlers (managerOn (terminal [])))) [] = []"
proof -
  let ?m = "managerOn (terminal [])"
  have t: "fst (attachManualControls (\<lambda>b. b) exampleHandlers ?m) = True"
    by (simp add: example_defs raw_defs Let_def)
  have e0: "emitData d ?m [] = []" for d
    by (simp add: emitData_def example_defs registeredListeners_def)
  have ne: "d \<noteq> [0x1B] \<and> d \<noteq> [0x0D] \<and> d \<noteq> [0x0A]"
    if "d = [0x0D, 0x0A] \<or> d = [0x1B, 0x5B, 0x41] \<or> d = js ''q''" for d :: jsstring
    using that by (auto simp: js_def)
  show ?thesis
    using t e0
      manual_controls_other_chunks [of "\<lambda>b. b" "[0x0D, 0x0A]" exampleHandlers ?m "[]"]
      manual_controls_other_chunks [of "\<lambda>b. b" "[0x1B, 0x5B, 0x41]" exampleHandlers ?m "[]"]
      manual_controls_other_chunks [of "\<lambda>b. b" "js ''q''" exampleHandlers ?m "[]"]
      ne [of "[0x0D, 0x0A]"] ne [of "[0x1B, 0x5B, 0x41]"] ne [of "js ''q''"]
    by simp
qed

end
